theory Spec2Isabelle
  imports Complex_Main
begin

section \<open>Numbers, random draws and constants\<close>

text \<open>
  Python floats are modelled as real numbers. Each call of the random number generator
  is an explicit argument of the function that makes it: a unit draw \<open>u\<close> stands for
  \<^verbatim>\<open>np.random.random()\<close>, which lies in \<open>[0, 1)\<close>, and
  \<^verbatim>\<open>np.random.uniform(low, high)\<close> is \<open>low + (high - low) * u\<close>, as numpy computes it.
\<close>

definition uniform :: "real \<Rightarrow> real \<Rightarrow> real \<Rightarrow> real" where
  "uniform low high u = low + (high - low) * u"

definition unit_draw :: "real \<Rightarrow> bool" where
  "unit_draw u = (0 \<le> u \<and> u < 1)"

text \<open>\<^verbatim>\<open>np.clip(a, a_min, a_max)\<close> is \<^verbatim>\<open>minimum(a_max, maximum(a, a_min))\<close>.\<close>

definition clip :: "real \<Rightarrow> real \<Rightarrow> real \<Rightarrow> real" where
  "clip a a_min a_max = min a_max (max a a_min)"

text \<open>The constants of \<^verbatim>\<open>constants.py\<close> that the strategy uses.\<close>

definition BASE_PRICE_STEP_RATIO :: real where
  "BASE_PRICE_STEP_RATIO = 1 / 1000"

definition PRICE_RANDOMIZATION_FACTOR :: real where
  "PRICE_RANDOMIZATION_FACTOR = 1 / 2"

definition ORDER_SIDE_ALTERNATE_PROBABILITY :: real where
  "ORDER_SIDE_ALTERNATE_PROBABILITY = 8 / 10"

definition PRICE_ADJUSTMENT_PROBABILITY :: real where
  "PRICE_ADJUSTMENT_PROBABILITY = 7 / 10"

definition LIQUIDITY_USAGE_RATIO :: real where
  "LIQUIDITY_USAGE_RATIO = 1 / 2"

definition BURST_MODE_INTERVAL_MULTIPLIER :: real where
  "BURST_MODE_INTERVAL_MULTIPLIER = 3 / 10"

definition QUIET_MODE_INTERVAL_MULTIPLIER :: real where
  "QUIET_MODE_INTERVAL_MULTIPLIER = 3"

definition COMPLETED_ORDER_STATUSES :: "string list" where
  "COMPLETED_ORDER_STATUSES = [''closed'', ''filled'', ''canceled'']"

section \<open>Python values and exceptions\<close>

text \<open>
  Market snapshots and exchange replies are untyped Python data. The values that occur
  in them are \<^verbatim>\<open>None\<close>, booleans, numbers, strings, lists and dictionaries with
  string keys (an association list, first binding of a key wins).
\<close>

datatype pyval =
    PNone
  | PBool bool
  | PNum real
  | PStr string
  | PList "pyval list"
  | PDict "(string \<times> pyval) list"

text \<open>
  Exceptions are the subclasses of \<^verbatim>\<open>Exception\<close> that the modelled code can raise, each
  with the text that \<^verbatim>\<open>str(e)\<close> gives. \<open>ExchangeError\<close> is any failure of an exchange
  call.
\<close>

datatype exn =
    TypeError string
  | AttributeError string
  | KeyError string
  | IndexError string
  | ExchangeError string

fun str_exn :: "exn \<Rightarrow> string" where
  "str_exn (TypeError m) = m"
| "str_exn (AttributeError m) = m"
| "str_exn (KeyError m) = m"
| "str_exn (IndexError m) = m"
| "str_exn (ExchangeError m) = m"

text \<open>The name that the interpreter prints for the type of a value (numbers print as floats).\<close>

fun type_name :: "pyval \<Rightarrow> string" where
  "type_name PNone = ''NoneType''"
| "type_name (PBool b) = ''bool''"
| "type_name (PNum x) = ''float''"
| "type_name (PStr s) = ''str''"
| "type_name (PList xs) = ''list''"
| "type_name (PDict kvs) = ''dict''"

text \<open>A piece of text between single quotes, as the interpreter's messages print names.\<close>

definition quoted :: "string \<Rightarrow> string" where
  "quoted s = [CHR 0x27] @ s @ [CHR 0x27]"

text \<open>Truth value of a value in a condition (\<^verbatim>\<open>if x\<close>, \<^verbatim>\<open>not x\<close>).\<close>

fun truthy :: "pyval \<Rightarrow> bool" where
  "truthy PNone = False"
| "truthy (PBool b) = b"
| "truthy (PNum x) = (x \<noteq> 0)"
| "truthy (PStr s) = (s \<noteq> [])"
| "truthy (PList xs) = (xs \<noteq> [])"
| "truthy (PDict kvs) = (kvs \<noteq> [])"

text \<open>The number a value stands for in arithmetic and comparisons; a boolean is 0 or 1.\<close>

fun as_num :: "pyval \<Rightarrow> real option" where
  "as_num (PNum x) = Some x"
| "as_num (PBool b) = Some (if b then 1 else 0)"
| "as_num v = None"

text \<open>\<^verbatim>\<open>d.get(key, default)\<close>: only a dictionary has the method.\<close>

definition py_get :: "pyval \<Rightarrow> string \<Rightarrow> pyval \<Rightarrow> exn + pyval" where
  "py_get d key dflt =
    (case d of
       PDict kvs \<Rightarrow> (case map_of kvs key of Some v \<Rightarrow> Inr v | None \<Rightarrow> Inr dflt)
     | _ \<Rightarrow> Inl (AttributeError
         (quoted (type_name d) @ '' object has no attribute '' @ quoted ''get'')))"

text \<open>\<^verbatim>\<open>d[key]\<close> with a string key.\<close>

definition py_getitem :: "pyval \<Rightarrow> string \<Rightarrow> exn + pyval" where
  "py_getitem d key =
    (case d of
       PDict kvs \<Rightarrow>
         (case map_of kvs key of Some v \<Rightarrow> Inr v | None \<Rightarrow> Inl (KeyError (quoted key)))
     | PStr s \<Rightarrow> Inl (TypeError ''string indices must be integers'')
     | PList xs \<Rightarrow> Inl (TypeError ''list indices must be integers or slices, not str'')
     | _ \<Rightarrow> Inl (TypeError (quoted (type_name d) @ '' object is not subscriptable'')))"

text \<open>Decimal digits of a natural number, for the text of a \<^verbatim>\<open>KeyError\<close> on an index.\<close>

fun nat_repr :: "nat \<Rightarrow> string" where
  "nat_repr n =
    (if n < 10 then [char_of (48 + n)] else nat_repr (n div 10) @ [char_of (48 + n mod 10)])"

text \<open>\<^verbatim>\<open>xs[i]\<close> with a non-negative integer index.\<close>

definition py_index :: "pyval \<Rightarrow> nat \<Rightarrow> exn + pyval" where
  "py_index v i =
    (case v of
       PList xs \<Rightarrow>
         (if i < length xs then Inr (xs ! i) else Inl (IndexError ''list index out of range''))
     | PStr s \<Rightarrow>
         (if i < length s then Inr (PStr [s ! i]) else Inl (IndexError ''string index out of range''))
     | PDict kvs \<Rightarrow> Inl (KeyError (nat_repr i))
     | _ \<Rightarrow> Inl (TypeError (quoted (type_name v) @ '' object is not subscriptable'')))"

text \<open>
  A comparison of a value with a number (\<^verbatim>\<open>v > 0\<close>, \<^verbatim>\<open>v <= 0\<close>) needs a number on the
  left; \<open>opname\<close> is the operator, for the message.
\<close>

definition py_num :: "string \<Rightarrow> pyval \<Rightarrow> exn + real" where
  "py_num opname v =
    (case as_num v of
       Some x \<Rightarrow> Inr x
     | None \<Rightarrow> Inl (TypeError
         (quoted opname @ '' not supported between instances of '' @ quoted (type_name v)
            @ '' and '' @ quoted ''int'')))"

text \<open>
  \<^verbatim>\<open>str.lower()\<close> and the substring test \<^verbatim>\<open>needle in text\<close>, on ASCII text: the
  letters A to Z are mapped to a to z.
\<close>

definition lower_char :: "char \<Rightarrow> char" where
  "lower_char c =
    (let n = (of_char c :: nat) in if 65 \<le> n \<and> n \<le> 90 then char_of (n + 32) else c)"

definition lower :: "string \<Rightarrow> string" where
  "lower s = map lower_char s"

fun str_in :: "string \<Rightarrow> string \<Rightarrow> bool" where
  "str_in needle [] = (needle = [])"
| "str_in needle (c # cs) = (take (length needle) (c # cs) = needle \<or> str_in needle cs)"

section \<open>Price walk strategy (\<^verbatim>\<open>price_strategy.py\<close>)\<close>

record PriceStrategy =
  price_walk_direction :: string
  max_price_deviation :: real
  price_walk_step :: real
  last_order_side :: "string option"

text \<open>
  The draws of one call of \<^verbatim>\<open>calculate_next_price_target\<close>: \<open>u_noise\<close> for the
  randomization term, \<open>u_step\<close> for the second \<^verbatim>\<open>uniform\<close> call of the branch taken, and
  \<open>pick_up\<close> for \<^verbatim>\<open>np.random.choice([-1, 1])\<close> (true when it returns 1).
\<close>

record target_draws =
  u_noise :: real
  u_step :: real
  pick_up :: bool

text \<open>The body of the \<^verbatim>\<open>try\<close> block, on a numeric current price.\<close>

definition price_target_body :: "PriceStrategy \<Rightarrow> real \<Rightarrow> target_draws \<Rightarrow> real \<times> PriceStrategy" where
  "price_target_body ps current_price d =
    (let base_step = current_price * BASE_PRICE_STEP_RATIO;
         randomization =
           uniform (- PRICE_RANDOMIZATION_FACTOR) PRICE_RANDOMIZATION_FACTOR (u_noise d) * base_step;
         (target_price, ps') =
           (if price_walk_direction ps = ''up'' then
              (let step = base_step * (1 + uniform 0 1 (u_step d)) + randomization
               in (current_price + step, ps))
            else if price_walk_direction ps = ''down'' then
              (let step = base_step * (1 + uniform 0 1 (u_step d)) + randomization
               in (current_price - step, ps))
            else if price_walk_direction ps = ''sideways'' then
              (let amplitude = base_step * 2;
                   ps1 = ps\<lparr>price_walk_step := price_walk_step ps + uniform (1 / 10) (3 / 10) (u_step d)\<rparr>;
                   oscillation = amplitude * sin (price_walk_step ps1) + randomization
               in (current_price + oscillation, ps1))
            else
              (let direction = (if pick_up d then 1 else - 1);
                   step = base_step * uniform (1 / 2) 2 (u_step d) * direction + randomization
               in (current_price + step, ps)));
         max_price = current_price * (1 + max_price_deviation ps');
         min_price = current_price * (1 - max_price_deviation ps')
     in (clip target_price min_price max_price, ps'))"

text \<open>
  \<^verbatim>\<open>calculate_next_price_target\<close>. A current price that is not a number makes the first
  statement of the body (\<^verbatim>\<open>current_price * BASE_PRICE_STEP_RATIO\<close>) raise a
  \<^verbatim>\<open>TypeError\<close>, before any state is touched; the handler returns \<^verbatim>\<open>current_price\<close>
  itself.
\<close>

definition calculate_next_price_target ::
  "PriceStrategy \<Rightarrow> pyval \<Rightarrow> target_draws \<Rightarrow> pyval \<times> PriceStrategy" where
  "calculate_next_price_target ps current_price d =
    (case as_num current_price of
       Some x \<Rightarrow> (let (t, ps') = price_target_body ps x d in (PNum t, ps'))
     | None \<Rightarrow> (current_price, ps))"

text \<open>
  The draws of one call of \<^verbatim>\<open>determine_order_side\<close>: \<open>pick_sell\<close> for
  \<^verbatim>\<open>np.random.choice(['buy', 'sell'])\<close>, \<open>u_alternate\<close> and \<open>u_adjust\<close> for the two
  \<^verbatim>\<open>np.random.random()\<close> calls.
\<close>

record side_draws =
  pick_sell :: bool
  u_alternate :: real
  u_adjust :: real

definition determine_order_side ::
  "PriceStrategy \<Rightarrow> real \<Rightarrow> real \<Rightarrow> side_draws \<Rightarrow> string \<times> PriceStrategy" where
  "determine_order_side ps current_price target_price d =
    (let side0 =
           (case last_order_side ps of
              None \<Rightarrow> (if pick_sell d then ''sell'' else ''buy'')
            | Some prev \<Rightarrow>
                (if u_alternate d < ORDER_SIDE_ALTERNATE_PROBABILITY
                 then (if prev = ''buy'' then ''sell'' else ''buy'')
                 else prev));
         side =
           (if target_price > current_price \<and> side0 = ''sell'' then
              (if u_adjust d < PRICE_ADJUSTMENT_PROBABILITY then ''buy'' else side0)
            else if target_price < current_price \<and> side0 = ''buy'' then
              (if u_adjust d < PRICE_ADJUSTMENT_PROBABILITY then ''sell'' else side0)
            else side0)
     in (side, ps\<lparr>last_order_side := Some side\<rparr>))"

section \<open>The exchange client\<close>

text \<open>
  The exchange is outside the program. Its replies are given as functions of the
  arguments of the call; \<^verbatim>\<open>cancel_order\<close> and \<^verbatim>\<open>fetch_order\<close>, which are called in a
  loop, also depend on the number of the loop iteration, so that two calls with the
  same order id may be answered differently. A call either raises (\<open>Inl\<close>, \<open>Some\<close>) or
  returns.
\<close>

record exchange =
  create_limit_order :: "string \<Rightarrow> string \<Rightarrow> real \<Rightarrow> real \<Rightarrow> exn + pyval"
  create_market_order :: "string \<Rightarrow> string \<Rightarrow> real \<Rightarrow> exn + pyval"
  cancel_order :: "nat \<Rightarrow> pyval \<Rightarrow> string \<Rightarrow> exn option"
  fetch_order :: "nat \<Rightarrow> pyval \<Rightarrow> string \<Rightarrow> exn + pyval"


section \<open>Order manager (\<^verbatim>\<open>order_manager.py\<close>)\<close>

text \<open>
  \<^verbatim>\<open>open_orders\<close> is a Python list: order matters and an id may occur twice.
  Identifiers are whatever the exchange returned under \<^verbatim>\<open>'id'\<close>; they are compared
  structurally.
\<close>

record OrderManager =
  symbol :: string
  open_orders :: "pyval list"






text \<open>The handler of \<^verbatim>\<open>cancel_open_orders\<close>: is the failure an order that is gone?\<close>

definition already_gone :: "exn \<Rightarrow> bool" where
  "already_gone e =
    (str_in ''not found'' (lower (str_exn e)) \<or> str_in ''already'' (lower (str_exn e)))"

text \<open>
  The first loop of \<^verbatim>\<open>cancel_open_orders\<close>, over a copy of the list, with its two
  accumulators \<^verbatim>\<open>cancelled_count\<close> and \<^verbatim>\<open>orders_to_remove\<close>; \<open>k\<close> counts the iterations.
\<close>

fun cancel_loop ::
  "exchange \<Rightarrow> string \<Rightarrow> nat \<Rightarrow> pyval list \<Rightarrow> nat \<times> pyval list \<Rightarrow> nat \<times> pyval list" where
  "cancel_loop ex pair k [] acc = acc"
| "cancel_loop ex pair k (order_id # rest) (cancelled_count, orders_to_remove) =
    cancel_loop ex pair (Suc k) rest
      (case cancel_order ex k order_id pair of
         None \<Rightarrow> (cancelled_count + 1, orders_to_remove @ [order_id])
       | Some e \<Rightarrow>
           (if already_gone e
            then (cancelled_count, orders_to_remove @ [order_id])
            else (cancelled_count, orders_to_remove)))"

text \<open>
  The second loop: \<^verbatim>\<open>list.remove\<close> deletes the first occurrence of each processed id that
  is still in the list.
\<close>

fun remove_processed :: "pyval list \<Rightarrow> pyval list \<Rightarrow> pyval list" where
  "remove_processed [] tracked = tracked"
| "remove_processed (order_id # rest) tracked =
    remove_processed rest
      (if order_id \<in> set tracked then remove1 order_id tracked else tracked)"

definition cancel_open_orders :: "OrderManager \<Rightarrow> exchange \<Rightarrow> nat \<times> OrderManager" where
  "cancel_open_orders om ex =
    (if open_orders om = [] then (0, om)
     else
       (let (cancelled_count, orders_to_remove) =
              cancel_loop ex (symbol om) 0 (open_orders om) (0, [])
        in (cancelled_count,
            om\<lparr>open_orders := remove_processed orders_to_remove (open_orders om)\<rparr>)))"

text \<open>\<^verbatim>\<open>status in COMPLETED_ORDER_STATUSES\<close>: only a string equals one of the strings.\<close>

definition is_completed_status :: "pyval \<Rightarrow> bool" where
  "is_completed_status v = (case v of PStr s \<Rightarrow> s \<in> set COMPLETED_ORDER_STATUSES | _ \<Rightarrow> False)"

text \<open>The handler of \<^verbatim>\<open>cleanup_completed_orders\<close>.\<close>

definition not_found :: "exn \<Rightarrow> bool" where
  "not_found e = str_in ''not found'' (lower (str_exn e))"

text \<open>
  The first loop of \<^verbatim>\<open>cleanup_completed_orders\<close>. Both the exchange call and the
  subscript \<^verbatim>\<open>order_status['status']\<close> are inside the \<^verbatim>\<open>try\<close>.
\<close>

fun cleanup_loop ::
  "exchange \<Rightarrow> string \<Rightarrow> nat \<Rightarrow> pyval list \<Rightarrow> nat \<times> pyval list \<Rightarrow> nat \<times> pyval list" where
  "cleanup_loop ex pair k [] acc = acc"
| "cleanup_loop ex pair k (order_id # rest) (completed_count, orders_to_remove) =
    cleanup_loop ex pair (Suc k) rest
      (let handler = (\<lambda>e. if not_found e
                           then (completed_count + 1, orders_to_remove @ [order_id])
                           else (completed_count, orders_to_remove))
       in case fetch_order ex k order_id pair of
            Inl e \<Rightarrow> handler e
          | Inr order_status \<Rightarrow>
              (case py_getitem order_status ''status'' of
                 Inl e \<Rightarrow> handler e
               | Inr status \<Rightarrow>
                   (if is_completed_status status
                    then (completed_count + 1, orders_to_remove @ [order_id])
                    else (completed_count, orders_to_remove))))"

definition cleanup_completed_orders :: "OrderManager \<Rightarrow> exchange \<Rightarrow> nat \<times> OrderManager" where
  "cleanup_completed_orders om ex =
    (if open_orders om = [] then (0, om)
     else
       (let (completed_count, orders_to_remove) =
              cleanup_loop ex (symbol om) 0 (open_orders om) (0, [])
        in (completed_count,
            om\<lparr>open_orders := remove_processed orders_to_remove (open_orders om)\<rparr>)))"

definition get_open_order_count :: "OrderManager \<Rightarrow> nat" where
  "get_open_order_count om = length (open_orders om)"

section \<open>Market data provider (\<^verbatim>\<open>market_data.py\<close>)\<close>

text \<open>Sequencing of steps that may raise: the first exception ends the computation.\<close>

definition try_bind :: "exn + 'a \<Rightarrow> ('a \<Rightarrow> exn + 'b) \<Rightarrow> exn + 'b" where
  "try_bind r f = (case r of Inl e \<Rightarrow> Inl e | Inr v \<Rightarrow> f v)"

text \<open>\<^verbatim>\<open>orderbook[side][0][i]\<close>: entry \<open>i\<close> of the best level of one side of the book.\<close>

definition best_level :: "pyval \<Rightarrow> string \<Rightarrow> nat \<Rightarrow> exn + pyval" where
  "best_level orderbook side i =
    try_bind (py_getitem orderbook side) (\<lambda>levels.
    try_bind (py_index levels 0) (\<lambda>level.
    py_index level i))"

definition calculate_spread :: "pyval \<Rightarrow> exn + real" where
  "calculate_spread orderbook =
    try_bind (py_get orderbook ''bids'' PNone) (\<lambda>bids.
    if \<not> truthy bids then Inr 0
    else
    try_bind (py_get orderbook ''asks'' PNone) (\<lambda>asks.
    if \<not> truthy asks then Inr 0
    else
    try_bind (best_level orderbook ''bids'' 0) (\<lambda>bid.
    try_bind (best_level orderbook ''asks'' 0) (\<lambda>ask.
    try_bind (py_num ''>'' bid) (\<lambda>b.
    if b > 0 then
      (case as_num ask of
         Some a \<Rightarrow> Inr ((a - b) / b)
       | None \<Rightarrow> Inl (TypeError
           (''unsupported operand type(s) for -: '' @ quoted (type_name ask)
              @ '' and '' @ quoted (type_name bid))))
    else Inr 0)))))"

record liquidity =
  bid_volume :: pyval
  ask_volume :: pyval

definition get_available_liquidity :: "pyval \<Rightarrow> exn + liquidity" where
  "get_available_liquidity orderbook =
    try_bind (py_get orderbook ''bids'' PNone) (\<lambda>bids.
    if \<not> truthy bids then Inr \<lparr>bid_volume = PNum 0, ask_volume = PNum 0\<rparr>
    else
    try_bind (py_get orderbook ''asks'' PNone) (\<lambda>asks.
    if \<not> truthy asks then Inr \<lparr>bid_volume = PNum 0, ask_volume = PNum 0\<rparr>
    else
    try_bind (try_bind (py_getitem orderbook ''bids'') (\<lambda>b.
                if truthy b then best_level orderbook ''bids'' 1 else Inr (PNum 0))) (\<lambda>bv.
    try_bind (try_bind (py_getitem orderbook ''asks'') (\<lambda>a.
                if truthy a then best_level orderbook ''asks'' 1 else Inr (PNum 0))) (\<lambda>av.
    Inr \<lparr>bid_volume = bv, ask_volume = av\<rparr>))))"

section \<open>Volume generation strategy (\<^verbatim>\<open>main.py\<close>)\<close>

record VolumeGenerationStrategy =
  price_strategy :: PriceStrategy
  order_manager :: OrderManager
  target_volume_usdt_per_hour :: real
  order_frequency :: real
  min_order_ratio :: real
  max_order_ratio :: real
  size_randomization :: real
  timing_randomization :: real
  burst_probability :: real
  quiet_probability :: real
  min_order_value_usdt :: real
  max_spread_threshold :: real
  cancel_previous_orders :: bool
  last_order_time :: "real option"
  volume_generated_today_usdt :: real
  order_count :: nat

text \<open>
  \<^verbatim>\<open>min(bid_volume, ask_volume) * LIQUIDITY_USAGE_RATIO\<close>. Two numbers give a number. Any
  other pair of values raises a \<^verbatim>\<open>TypeError\<close>: in the comparison that \<^verbatim>\<open>min\<close> makes,
  or, for two strings or two lists, in the multiplication by a float.
\<close>

fun both_sequences :: "pyval \<Rightarrow> pyval \<Rightarrow> bool" where
  "both_sequences (PStr s) (PStr t) = True"
| "both_sequences (PList xs) (PList ys) = True"
| "both_sequences v w = False"

definition max_liquidity :: "pyval \<Rightarrow> pyval \<Rightarrow> exn + real" where
  "max_liquidity bv av =
    (case (as_num bv, as_num av) of
       (Some b, Some a) \<Rightarrow> Inr (min b a * LIQUIDITY_USAGE_RATIO)
     | _ \<Rightarrow>
        (if both_sequences bv av
         then Inl (TypeError (''can'' @ [CHR 0x27] @ ''t multiply sequence by non-int of type ''
                                @ quoted ''float''))
         else Inl (TypeError (quoted ''<'' @ '' not supported between instances of ''
                                @ quoted (type_name av) @ '' and '' @ quoted (type_name bv)))))"

text \<open>The draws of \<^verbatim>\<open>calculate_order_size\<close>: the ratio and the size randomization.\<close>

record size_draws =
  u_ratio :: real
  u_size :: real

text \<open>
  \<^verbatim>\<open>calculate_order_size\<close>; the current price is optional (\<^verbatim>\<open>None\<close> by default), and
  \<^verbatim>\<open>current_price and current_price > 0\<close> needs it to be given, not zero and positive.
\<close>

definition calculate_order_size ::
  "VolumeGenerationStrategy \<Rightarrow> real \<Rightarrow> pyval \<Rightarrow> real option \<Rightarrow> size_draws \<Rightarrow> exn + real" where
  "calculate_order_size s available_balance market_data current_price d =
    (let base_ratio = uniform (min_order_ratio s) (max_order_ratio s) (u_ratio d);
         base_size = available_balance * base_ratio;
         randomization_factor =
           1 + uniform (- size_randomization s) (size_randomization s) (u_size d);
         order_size = base_size * randomization_factor
     in try_bind (py_get market_data ''orderbook'' (PDict [])) (\<lambda>orderbook.
        try_bind (get_available_liquidity orderbook) (\<lambda>liq.
        try_bind (max_liquidity (bid_volume liq) (ask_volume liq)) (\<lambda>max_liquidity_size.
          (let order_size1 =
                 (if max_liquidity_size > 0 then min order_size max_liquidity_size
                  else order_size)
           in case current_price of
                Some p \<Rightarrow>
                  (if p \<noteq> 0 \<and> p > 0
                   then (let min_size_for_usdt = min_order_value_usdt s / p
                         in Inr (max order_size1 min_size_for_usdt))
                   else Inr (max order_size1 1))
              | None \<Rightarrow> Inr (max order_size1 1))))))"

text \<open>
  The draws of \<^verbatim>\<open>should_place_order\<close>: the interval jitter, then the burst draw; the
  quiet draw is made only when the burst test fails.
\<close>

record timing_draws =
  u_jitter :: real
  u_burst :: real
  u_quiet :: real

text \<open>\<open>now\<close> is the reading of the clock, in seconds.\<close>

definition should_place_order :: "VolumeGenerationStrategy \<Rightarrow> real \<Rightarrow> timing_draws \<Rightarrow> bool" where
  "should_place_order s now d =
    (case last_order_time s of
       None \<Rightarrow> True
     | Some t \<Rightarrow>
         (let elapsed = now - t;
              base_interval = order_frequency s;
              randomized_interval =
                base_interval
                  * (1 + uniform (- timing_randomization s) (timing_randomization s) (u_jitter d));
              randomized_interval1 =
                (if u_burst d < burst_probability s
                 then randomized_interval * BURST_MODE_INTERVAL_MULTIPLIER
                 else if u_quiet d < quiet_probability s
                 then randomized_interval * QUIET_MODE_INTERVAL_MULTIPLIER
                 else randomized_interval)
          in elapsed \<ge> randomized_interval1))"

text \<open>
  The three readings of \<^verbatim>\<open>datetime.now()\<close> in one call of \<^verbatim>\<open>should_trade\<close>: in the
  timing check, the hour of day in the volume rate, and the time stored as
  \<^verbatim>\<open>last_order_time\<close>.
\<close>

record clock =
  now_timing :: real
  now_hour :: nat
  now_placed :: real

record decision_draws =
  d_timing :: timing_draws
  d_target :: target_draws
  d_side :: side_draws
  d_size :: size_draws

text \<open>The dictionary \<^verbatim>\<open>analysis_data\<close>; field \<open>a_k\<close> is the value under key \<open>k\<close>.\<close>

record analysis_data =
  a_current_price :: real
  a_target_price :: real
  a_order_side :: string
  a_order_size :: real
  a_order_value_usdt :: real
  a_spread :: real
  a_spread_ok :: bool
  a_volume_rate_usdt :: real
  a_behind_target :: bool
  a_strategy_type :: string

text \<open>
  The third component of the result is one of three dictionaries: \<^verbatim>\<open>{'error': message}\<close>,
  \<^verbatim>\<open>{'waiting_for_timing': True}\<close> or \<^verbatim>\<open>analysis_data\<close>.
\<close>

datatype diagnostics =
    Error string
  | WaitingForTiming
  | Analysis analysis_data

type_synonym decision = "bool \<times> real \<times> diagnostics"

text \<open>
  The body of the \<^verbatim>\<open>try\<close> block of \<^verbatim>\<open>should_trade\<close>. It returns a decision or raises,
  and in both cases leaves the strategy in the state reached so far.
\<close>

definition should_trade_body ::
  "VolumeGenerationStrategy \<Rightarrow> exchange \<Rightarrow> clock \<Rightarrow> decision_draws \<Rightarrow> pyval \<Rightarrow> real
     \<Rightarrow> (exn + decision) \<times> VolumeGenerationStrategy" where
  "should_trade_body s ex clk d market_data available_balance =
    (if \<not> truthy market_data then (Inr (False, 0, Error ''No market data''), s)
     else if \<not> should_place_order s (now_timing clk) (d_timing d)
     then (Inr (False, 0, WaitingForTiming), s)
     else
      (let s1 = (if cancel_previous_orders s
                 then s\<lparr>order_manager := snd (cancel_open_orders (order_manager s) ex)\<rparr>
                 else s)
       in case py_get market_data ''ticker'' (PDict []) of
            Inl e \<Rightarrow> (Inl e, s1)
          | Inr ticker \<Rightarrow>
       (case py_get ticker ''last'' (PNum 0) of
            Inl e \<Rightarrow> (Inl e, s1)
          | Inr last_price \<Rightarrow>
       (case py_num ''<='' last_price of
            Inl e \<Rightarrow> (Inl e, s1)
          | Inr current_price \<Rightarrow>
       if current_price \<le> 0 then (Inr (False, 0, Error ''Invalid current price''), s1)
       else
       (let (target, ps1) =
              calculate_next_price_target (price_strategy s1) last_price (d_target d);
            s2 = s1\<lparr>price_strategy := ps1\<rparr>
        in case py_num ''>'' target of
             Inl e \<Rightarrow> (Inl e, s2)
           | Inr target_price \<Rightarrow>
       (let (order_side, ps2) =
              determine_order_side ps1 current_price target_price (d_side d);
            s3 = s2\<lparr>price_strategy := ps2\<rparr>
        in case calculate_order_size s3 available_balance market_data (Some current_price)
                  (d_size d) of
             Inl e \<Rightarrow> (Inl e, s3)
           | Inr order_size \<Rightarrow>
       (case py_get market_data ''orderbook'' (PDict []) of
             Inl e \<Rightarrow> (Inl e, s3)
           | Inr orderbook \<Rightarrow>
       (case calculate_spread orderbook of
             Inl e \<Rightarrow> (Inl e, s3)
           | Inr spread \<Rightarrow>
       (let spread_ok = (spread \<le> max_spread_threshold s3);
            confidence = (if spread_ok then 7 / 10 else 3 / 10);
            should_place = (confidence > 5 / 10 \<and> spread_ok);
            volume_rate_usdt =
              volume_generated_today_usdt s3 / max 1 (real (now_hour clk + 1));
            behind_target = (volume_rate_usdt < target_volume_usdt_per_hour s3 * (8 / 10));
            confidence1 = (if behind_target then confidence + 2 / 10 else confidence);
            analysis =
              \<lparr>a_current_price = current_price,
               a_target_price = target_price,
               a_order_side = order_side,
               a_order_size = order_size,
               a_order_value_usdt = order_size * current_price,
               a_spread = spread,
               a_spread_ok = spread_ok,
               a_volume_rate_usdt = volume_rate_usdt,
               a_behind_target = behind_target,
               a_strategy_type = ''volume_generation''\<rparr>;
            s4 = (if should_place
                  then s3\<lparr>last_order_time := Some (now_placed clk),
                          order_count := order_count s3 + 1,
                          volume_generated_today_usdt :=
                            volume_generated_today_usdt s3 + order_size * current_price\<rparr>
                  else s3)
        in (Inr (should_place, confidence1, Analysis analysis), s4))))))))))"

text \<open>\<^verbatim>\<open>should_trade\<close>: the handler turns any exception of the body into a decision.\<close>

definition should_trade ::
  "VolumeGenerationStrategy \<Rightarrow> exchange \<Rightarrow> clock \<Rightarrow> decision_draws \<Rightarrow> pyval \<Rightarrow> real
     \<Rightarrow> decision \<times> VolumeGenerationStrategy" where
  "should_trade s ex clk d market_data available_balance =
    (case should_trade_body s ex clk d market_data available_balance of
       (Inr decision, s') \<Rightarrow> (decision, s')
     | (Inl e, s') \<Rightarrow> ((False, 0, Error (str_exn e)), s'))"

text \<open>
  \<^verbatim>\<open>VolumeGenerationStrategy.__init__\<close> with an empty configuration: every parameter takes
  its default from \<^verbatim>\<open>constants.py\<close>, nothing is tracked and nothing has been traded.
\<close>

definition init_strategy :: "string \<Rightarrow> VolumeGenerationStrategy" where
  "init_strategy pair =
    \<lparr>price_strategy =
       \<lparr>price_walk_direction = ''sideways'', max_price_deviation = 1 / 100,
        price_walk_step = 0, last_order_side = None\<rparr>,
     order_manager = \<lparr>symbol = pair, open_orders = []\<rparr>,
     target_volume_usdt_per_hour = 100,
     order_frequency = 60,
     min_order_ratio = 1 / 1000,
     max_order_ratio = 5 / 1000,
     size_randomization = 3 / 10,
     timing_randomization = 5 / 10,
     burst_probability = 5 / 100,
     quiet_probability = 15 / 100,
     min_order_value_usdt = 5,
     max_spread_threshold = 5 / 100,
     cancel_previous_orders = True,
     last_order_time = None,
     volume_generated_today_usdt = 0,
     order_count = 0\<rparr>"

section \<open>Outcomes of the exchange calls, in the words of the specification\<close>

text \<open>
  An entry \<open>(k, order_id)\<close> is the id handled in iteration \<open>k\<close> of a loop over the tracked
  ids. Its cancellation succeeded when the call returned; it failed otherwise when the
  call raised and the message contains neither "not found" nor "already" (in any letter
  case).
\<close>

definition cancel_succeeded :: "exchange \<Rightarrow> string \<Rightarrow> nat \<times> pyval \<Rightarrow> bool" where
  "cancel_succeeded ex pair q = (cancel_order ex (fst q) (snd q) pair = None)"

definition cancel_failed_otherwise :: "exchange \<Rightarrow> string \<Rightarrow> nat \<times> pyval \<Rightarrow> bool" where
  "cancel_failed_otherwise ex pair q =
    (case cancel_order ex (fst q) (snd q) pair of
       None \<Rightarrow> False
     | Some e \<Rightarrow> \<not> (str_in ''not found'' (lower (str_exn e))
                    \<or> str_in ''already'' (lower (str_exn e))))"

text \<open>
  The status query of an entry reports a terminal status when the reply has one of the
  strings filled, closed, canceled under \<^verbatim>\<open>'status'\<close>; it fails with "not found" when the
  call raises with a message that contains these words (in any letter case).
\<close>

definition terminal_or_not_found :: "exchange \<Rightarrow> string \<Rightarrow> nat \<times> pyval \<Rightarrow> bool" where
  "terminal_or_not_found ex pair q =
    (case fetch_order ex (fst q) (snd q) pair of
       Inr reply \<Rightarrow>
         (case py_getitem reply ''status'' of
            Inr (PStr st) \<Rightarrow> st \<in> {''filled'', ''closed'', ''canceled''}
          | _ \<Rightarrow> False)
     | Inl e \<Rightarrow> str_in ''not found'' (lower (str_exn e)))"

section \<open>Example inputs\<close>


text \<open>
  An exchange that cancels order a, does not know order b, and times out on every other
  order; the status of a is closed, b is unknown, the query for c times out and every
  other order is open.
\<close>

definition scenario_exchange :: exchange where
  "scenario_exchange =
    \<lparr>create_limit_order =
       (\<lambda>pair side amount price. Inr (PDict [(''id'', PStr ''L1''), (''status'', PStr ''open'')])),
     create_market_order =
       (\<lambda>pair side amount. Inr (PDict [(''id'', PStr ''M1''), (''status'', PStr ''open'')])),
     cancel_order =
       (\<lambda>k order_id pair.
          if order_id = PStr ''a'' then None
          else if order_id = PStr ''b'' then Some (ExchangeError ''Order not found'')
          else Some (ExchangeError ''Request timed out'')),
     fetch_order =
       (\<lambda>k order_id pair.
          if order_id = PStr ''a'' then Inr (PDict [(''id'', order_id), (''status'', PStr ''closed'')])
          else if order_id = PStr ''b'' then Inl (ExchangeError ''Order not found'')
          else if order_id = PStr ''c'' then Inl (ExchangeError ''Request timed out'')
          else Inr (PDict [(''id'', order_id), (''status'', PStr ''open'')]))\<rparr>"

text \<open>
  A snapshot at price 100 whose best bid and ask are 10% apart, a snapshot whose ticker
  is a string instead of a dictionary, a strategy with the default configuration that
  walks upwards, a clock at noon, and draws in the middle of their ranges.
\<close>

definition wide_book :: pyval where
  "wide_book =
    PDict [(''ticker'', PDict [(''last'', PNum 100)]),
           (''orderbook'',
              PDict [(''bids'', PList [PList [PNum 100, PNum 5]]),
                     (''asks'', PList [PList [PNum 110, PNum 5]])])]"

definition broken_ticker :: pyval where
  "broken_ticker = PDict [(''ticker'', PStr ''unavailable'')]"

definition up_strategy :: VolumeGenerationStrategy where
  "up_strategy =
    (init_strategy ''ETH/USDT'')
      \<lparr>price_strategy :=
         \<lparr>price_walk_direction = ''up'', max_price_deviation = 1 / 100,
          price_walk_step = 0, last_order_side = None\<rparr>\<rparr>"

definition noon :: clock where
  "noon = \<lparr>now_timing = 43200, now_hour = 12, now_placed = 43201\<rparr>"

definition middle_draws :: decision_draws where
  "middle_draws =
    \<lparr>d_timing = \<lparr>u_jitter = 1 / 2, u_burst = 1 / 2, u_quiet = 1 / 2\<rparr>,
     d_target = \<lparr>u_noise = 1 / 2, u_step = 1 / 2, pick_up = True\<rparr>,
     d_side = \<lparr>pick_sell = False, u_alternate = 1 / 2, u_adjust = 1 / 2\<rparr>,
     d_size = \<lparr>u_ratio = 1 / 2, u_size = 1 / 2\<rparr>\<rparr>"

section \<open>The price target stays within the deviation limits\<close>

lemma clip_bounds:
  "a_min \<le> a_max \<Longrightarrow> a_min \<le> clip a a_min a_max \<and> clip a a_min a_max \<le> a_max"
  by (simp add: clip_def)

lemma price_target_body_deviation:
  "max_price_deviation (snd (price_target_body ps x d)) = max_price_deviation ps"
  by (simp add: price_target_body_def Let_def split: prod.splits if_splits)

lemma price_target_body_bounds:
  assumes "0 < x" and "0 < max_price_deviation ps"
  shows "x * (1 - max_price_deviation ps) \<le> fst (price_target_body ps x d)
       \<and> fst (price_target_body ps x d) \<le> x * (1 + max_price_deviation ps)"
proof -
  have le: "x * (1 - max_price_deviation ps) \<le> x * (1 + max_price_deviation ps)"
    using assms by (simp add: algebra_simps)
  show ?thesis
    using clip_bounds [OF le]
    by (simp add: price_target_body_def Let_def split: prod.splits if_splits)
qed

text \<open>
  Claim C1. For every current price \<open>x > 0\<close>, every maximum deviation in \<open>(0, 0.1]\<close>,
  every walk direction (any string: up, down, sideways, and random for everything else)
  and all random draws, \<^verbatim>\<open>calculate_next_price_target\<close> returns a number between
  \<open>x * (1 - max_price_deviation)\<close> and \<open>x * (1 + max_price_deviation)\<close>; and the value
  that the fail-soft handler returns, the current price itself, lies in the same interval.
\<close>

theorem calculate_next_price_target_within_deviation:
  assumes "0 < x" and "0 < max_price_deviation ps" and "max_price_deviation ps \<le> 1 / 10"
  shows "(\<exists>t. fst (calculate_next_price_target ps (PNum x) d) = PNum t
            \<and> x * (1 - max_price_deviation ps) \<le> t
            \<and> t \<le> x * (1 + max_price_deviation ps))
       \<and> x * (1 - max_price_deviation ps) \<le> x \<and> x \<le> x * (1 + max_price_deviation ps)"
proof -
  have "x * max_price_deviation ps > 0" using assms by simp
  then have self: "x * (1 - max_price_deviation ps) \<le> x \<and> x \<le> x * (1 + max_price_deviation ps)"
    by (simp add: algebra_simps)
  show ?thesis
    using price_target_body_bounds [OF assms(1,2), of d] self
    by (simp add: calculate_next_price_target_def case_prod_beta)
qed

theorem calculate_next_price_target_within_deviation_witness:
  "(\<exists>t. fst (calculate_next_price_target
              \<lparr>price_walk_direction = ''up'', max_price_deviation = 1 / 100,
               price_walk_step = 0, last_order_side = None\<rparr>
              (PNum 100) \<lparr>u_noise = 1 / 2, u_step = 1 / 2, pick_up = True\<rparr>) = PNum t
        \<and> 99 \<le> t \<and> t \<le> 101)"
  using calculate_next_price_target_within_deviation
    [of 100 "\<lparr>price_walk_direction = ''up'', max_price_deviation = 1 / 100,
               price_walk_step = 0, last_order_side = None\<rparr>"
        "\<lparr>u_noise = 1 / 2, u_step = 1 / 2, pick_up = True\<rparr>"]
  by simp

section \<open>Order sizing\<close>


text \<open>
  The sizing returns a size (it does not raise) for a snapshot without an order book and
  for one whose best bid and ask levels are lists that start with two numbers.
\<close>

lemma calculate_order_size_returns:
  assumes "map_of kvs ''orderbook'' = None
         \<or> map_of kvs ''orderbook'' =
             Some (PDict [(''bids'', PList (PList (PNum bid # PNum bid_size # more_bid) # bids)),
                          (''asks'', PList (PList (PNum ask # PNum ask_size # more_ask) # asks))])"
  shows "\<exists>sz. calculate_order_size s available_balance (PDict kvs) p d = Inr sz"
  using assms
  by (auto simp add: calculate_order_size_def Let_def try_bind_def py_get_def
      get_available_liquidity_def best_level_def py_getitem_def py_index_def max_liquidity_def
      split: option.splits)



section \<open>Timing\<close>

text \<open>
  Claim C6. With \<open>timing_randomization = 0\<close>, \<open>burst_probability = 0\<close> and
  \<open>quiet_probability = 0\<close>, and draws of \<^verbatim>\<open>np.random.random()\<close> in \<open>[0, 1)\<close>, the timing
  check does not depend on the draws: it is true when \<open>last_order_time\<close> is unset, and
  otherwise it is true exactly when the elapsed time \<open>now - last_order_time\<close> is at least
  the configured order frequency.
\<close>

theorem should_place_order_deterministic:
  assumes "timing_randomization s = 0" and "burst_probability s = 0" and "quiet_probability s = 0"
    and "unit_draw (u_burst d)" and "unit_draw (u_quiet d)"
  shows "should_place_order s now d =
           (case last_order_time s of None \<Rightarrow> True | Some t \<Rightarrow> now - t \<ge> order_frequency s)"
  using assms
  by (simp add: should_place_order_def uniform_def unit_draw_def Let_def split: option.splits)

theorem should_place_order_deterministic_witness:
  "should_place_order
     ((init_strategy ''ETH/USDT'')
        \<lparr>timing_randomization := 0, burst_probability := 0, quiet_probability := 0,
         last_order_time := Some 1000\<rparr>)
     1060 \<lparr>u_jitter = 9 / 10, u_burst = 0, u_quiet = 0\<rparr>
   \<and> \<not> should_place_order
     ((init_strategy ''ETH/USDT'')
        \<lparr>timing_randomization := 0, burst_probability := 0, quiet_probability := 0,
         last_order_time := Some 1000\<rparr>)
     1059 \<lparr>u_jitter = 9 / 10, u_burst = 0, u_quiet = 0\<rparr>
   \<and> should_place_order
     ((init_strategy ''ETH/USDT'')
        \<lparr>timing_randomization := 0, burst_probability := 0, quiet_probability := 0\<rparr>)
     0 \<lparr>u_jitter = 9 / 10, u_burst = 0, u_quiet = 0\<rparr>"
  using should_place_order_deterministic
    [of "(init_strategy ''ETH/USDT'')
        \<lparr>timing_randomization := 0, burst_probability := 0, quiet_probability := 0,
         last_order_time := Some 1000\<rparr>" "\<lparr>u_jitter = 9 / 10, u_burst = 0, u_quiet = 0\<rparr>" 1060]
    should_place_order_deterministic
    [of "(init_strategy ''ETH/USDT'')
        \<lparr>timing_randomization := 0, burst_probability := 0, quiet_probability := 0,
         last_order_time := Some 1000\<rparr>" "\<lparr>u_jitter = 9 / 10, u_burst = 0, u_quiet = 0\<rparr>" 1059]
    should_place_order_deterministic
    [of "(init_strategy ''ETH/USDT'')
        \<lparr>timing_randomization := 0, burst_probability := 0, quiet_probability := 0\<rparr>"
        "\<lparr>u_jitter = 9 / 10, u_burst = 0, u_quiet = 0\<rparr>" 0]
  by (simp add: init_strategy_def unit_draw_def)

text \<open>
  Claim C7. In one timing check, with a last order time set, the randomized interval is
  multiplied by exactly one factor \<open>m\<close>: the burst multiplier when the first draw is below
  \<open>burst_probability\<close> (whatever the second draw), the quiet multiplier when the burst test
  fails and the second draw is below \<open>quiet_probability\<close>, and 1 otherwise. The factor
  is never the product nor the sum of the two multipliers; the burst multiplier is below
  1 and the quiet multiplier above 1.
\<close>

theorem should_place_order_one_regime:
  assumes "last_order_time s = Some t"
  shows "\<exists>m. should_place_order s now d =
               (now - t \<ge> order_frequency s
                  * (1 + uniform (- timing_randomization s) (timing_randomization s) (u_jitter d))
                  * m)
            \<and> (u_burst d < burst_probability s \<longrightarrow> m = BURST_MODE_INTERVAL_MULTIPLIER)
            \<and> (\<not> u_burst d < burst_probability s \<and> u_quiet d < quiet_probability s
                  \<longrightarrow> m = QUIET_MODE_INTERVAL_MULTIPLIER)
            \<and> (\<not> u_burst d < burst_probability s \<and> \<not> u_quiet d < quiet_probability s
                  \<longrightarrow> m = 1)
            \<and> m \<noteq> BURST_MODE_INTERVAL_MULTIPLIER * QUIET_MODE_INTERVAL_MULTIPLIER
            \<and> m \<noteq> BURST_MODE_INTERVAL_MULTIPLIER + QUIET_MODE_INTERVAL_MULTIPLIER
            \<and> BURST_MODE_INTERVAL_MULTIPLIER < 1 \<and> 1 < QUIET_MODE_INTERVAL_MULTIPLIER"
proof -
  define m where "m = (if u_burst d < burst_probability s then BURST_MODE_INTERVAL_MULTIPLIER
                       else if u_quiet d < quiet_probability s then QUIET_MODE_INTERVAL_MULTIPLIER
                       else 1)"
  have "should_place_order s now d =
               (now - t \<ge> order_frequency s
                  * (1 + uniform (- timing_randomization s) (timing_randomization s) (u_jitter d))
                  * m)"
    using assms by (simp add: should_place_order_def Let_def m_def)
  moreover have "m \<noteq> BURST_MODE_INTERVAL_MULTIPLIER * QUIET_MODE_INTERVAL_MULTIPLIER"
    and "m \<noteq> BURST_MODE_INTERVAL_MULTIPLIER + QUIET_MODE_INTERVAL_MULTIPLIER"
    by (simp_all add: m_def BURST_MODE_INTERVAL_MULTIPLIER_def QUIET_MODE_INTERVAL_MULTIPLIER_def)
  moreover have "BURST_MODE_INTERVAL_MULTIPLIER < 1 \<and> 1 < QUIET_MODE_INTERVAL_MULTIPLIER"
    by (simp add: BURST_MODE_INTERVAL_MULTIPLIER_def QUIET_MODE_INTERVAL_MULTIPLIER_def)
  ultimately show ?thesis
    by (intro exI [of _ m]) (simp add: m_def)
qed

theorem should_place_order_one_regime_witness:
  "should_place_order
     ((init_strategy ''ETH/USDT'') \<lparr>timing_randomization := 0, last_order_time := Some 1000\<rparr>)
     1018 \<lparr>u_jitter = 1 / 2, u_burst = 1 / 100, u_quiet = 1 / 100\<rparr>
   \<and> \<not> should_place_order
     ((init_strategy ''ETH/USDT'') \<lparr>timing_randomization := 0, last_order_time := Some 1000\<rparr>)
     1017 \<lparr>u_jitter = 1 / 2, u_burst = 1 / 100, u_quiet = 1 / 100\<rparr>"
  using should_place_order_one_regime
    [of "(init_strategy ''ETH/USDT'') \<lparr>timing_randomization := 0, last_order_time := Some 1000\<rparr>"
        1000 1018 "\<lparr>u_jitter = 1 / 2, u_burst = 1 / 100, u_quiet = 1 / 100\<rparr>"]
    should_place_order_one_regime
    [of "(init_strategy ''ETH/USDT'') \<lparr>timing_randomization := 0, last_order_time := Some 1000\<rparr>"
        1000 1017 "\<lparr>u_jitter = 1 / 2, u_burst = 1 / 100, u_quiet = 1 / 100\<rparr>"]
  by (auto simp add: init_strategy_def uniform_def BURST_MODE_INTERVAL_MULTIPLIER_def)

section \<open>Order tracking\<close>

lemma remove1_as_filter:
  "distinct tracked \<Longrightarrow>
     (if r \<in> set tracked then remove1 r tracked else tracked) = filter (\<lambda>x. x \<noteq> r) tracked"
proof (induction tracked)
  case Nil
  then show ?case by simp
next
  case (Cons a tracked)
  then show ?case by (auto simp add: filter_id_conv)
qed

lemma remove_processed_distinct:
  "distinct tracked \<Longrightarrow> remove_processed rm tracked = filter (\<lambda>x. x \<notin> set rm) tracked"
proof (induction rm arbitrary: tracked)
  case Nil
  then show ?case by simp
next
  case (Cons r rm)
  have d: "distinct (filter (\<lambda>x. x \<noteq> r) tracked)"
    using Cons.prems by simp
  have "remove_processed (r # rm) tracked = remove_processed rm (filter (\<lambda>x. x \<noteq> r) tracked)"
    using remove1_as_filter [OF Cons.prems, of r] by simp
  also have "\<dots> = filter (\<lambda>x. x \<notin> set rm) (filter (\<lambda>x. x \<noteq> r) tracked)"
    by (rule Cons.IH [OF d])
  also have "\<dots> = filter (\<lambda>x. x \<notin> set (r # rm)) tracked"
    by (simp add: conj_commute)
  finally show ?case .
qed

lemma filter_positions:
  "distinct (map snd ps) \<Longrightarrow>
     filter (\<lambda>x. x \<notin> set (map snd (filter P ps))) (map snd ps) = map snd (filter (\<lambda>q. \<not> P q) ps)"
proof (induction ps)
  case Nil
  then show ?case by simp
next
  case (Cons q ps)
  then have notin: "snd q \<notin> snd ` set ps" and d: "distinct (map snd ps)"
    by simp_all
  have ih: "filter (\<lambda>x. x \<notin> snd ` {a \<in> set ps. P a}) (map snd ps) = map snd (filter (\<lambda>q. \<not> P q) ps)"
    using Cons.IH [OF d] by simp
  have same: "filter (\<lambda>x. x \<noteq> snd q \<and> x \<notin> snd ` {a \<in> set ps. P a}) (map snd ps)
            = filter (\<lambda>x. x \<notin> snd ` {a \<in> set ps. P a}) (map snd ps)"
  proof (rule filter_cong [OF refl])
    fix x assume "x \<in> set (map snd ps)"
    then have "x \<in> snd ` set ps" by simp
    with notin have "x \<noteq> snd q" by blast
    then show "(x \<noteq> snd q \<and> x \<notin> snd ` {a \<in> set ps. P a}) = (x \<notin> snd ` {a \<in> set ps. P a})"
      by simp
  qed
  show ?case
  proof (cases "P q")
    case True
    then show ?thesis using ih same by simp
  next
    case False
    have "snd ` {a \<in> set ps. P a} \<subseteq> snd ` set ps" by blast
    with notin have "snd q \<notin> snd ` {a \<in> set ps. P a}" by blast
    then show ?thesis using False ih by simp
  qed
qed

lemma tracked_after_removal:
  assumes "distinct ids"
  shows "remove_processed (map snd (filter P (enumerate k ids))) ids
           = map snd (filter (\<lambda>q. \<not> P q) (enumerate k ids))"
proof -
  have "distinct (map snd (enumerate k ids))" using assms by simp
  from filter_positions [OF this, of P] show ?thesis
    using assms by (simp add: remove_processed_distinct)
qed

lemma cancel_loop_eq:
  "cancel_loop ex pair k ids (c, rm) =
     (c + length (filter (cancel_succeeded ex pair) (enumerate k ids)),
      rm @ map snd (filter (\<lambda>q. \<not> cancel_failed_otherwise ex pair q) (enumerate k ids)))"
proof (induction ids arbitrary: k c rm)
  case Nil
  then show ?case by simp
next
  case (Cons a ids)
  show ?case
    by (cases "cancel_order ex k a pair")
       (simp_all add: Cons.IH cancel_succeeded_def cancel_failed_otherwise_def already_gone_def)
qed

text \<open>
  Claim C4. When the tracked ids are pairwise distinct, \<^verbatim>\<open>cancel_open_orders\<close> returns
  the number of ids whose cancellation succeeded, and afterwards tracks exactly the ids
  whose cancellation failed with a message that contains neither "not found" nor
  "already", in their old order: every id that was cancelled or found gone is removed,
  and the count is that of the cancelled ones, not of the removed ones. With ids a, b
  where cancelling a succeeds and cancelling b fails with "Order not found" it returns 1
  and nothing stays tracked; on an empty tracker it returns 0 and the tracker stays empty.
\<close>

theorem cancel_open_orders_tracking:
  assumes "distinct (open_orders om)"
  shows "cancel_open_orders om ex =
           (length (filter (cancel_succeeded ex (symbol om)) (enumerate 0 (open_orders om))),
            om\<lparr>open_orders :=
                 map snd (filter (cancel_failed_otherwise ex (symbol om))
                            (enumerate 0 (open_orders om)))\<rparr>)"
proof (cases "open_orders om = []")
  case True
  then show ?thesis by (simp add: cancel_open_orders_def)
next
  case False
  then show ?thesis
    using tracked_after_removal [OF assms, of "\<lambda>q. \<not> cancel_failed_otherwise ex (symbol om) q" 0]
    by (simp add: cancel_open_orders_def cancel_loop_eq)
qed

theorem cancel_open_orders_tracking_witness:
  "cancel_open_orders \<lparr>symbol = ''ETH/USDT'', open_orders = [PStr ''a'', PStr ''b'']\<rparr> scenario_exchange
     = (1, \<lparr>symbol = ''ETH/USDT'', open_orders = []\<rparr>)
   \<and> cancel_open_orders \<lparr>symbol = ''ETH/USDT'', open_orders = []\<rparr> scenario_exchange
     = (0, \<lparr>symbol = ''ETH/USDT'', open_orders = []\<rparr>)
   \<and> cancel_open_orders \<lparr>symbol = ''ETH/USDT'', open_orders = [PStr ''a'', PStr ''c'']\<rparr> scenario_exchange
     = (1, \<lparr>symbol = ''ETH/USDT'', open_orders = [PStr ''c'']\<rparr>)"
proof -
  have d1: "distinct (open_orders \<lparr>symbol = ''ETH/USDT'', open_orders = [PStr ''a'', PStr ''b'']\<rparr>)"
    and d2: "distinct (open_orders \<lparr>symbol = ''ETH/USDT'', open_orders = []\<rparr>)"
    and d3: "distinct (open_orders \<lparr>symbol = ''ETH/USDT'', open_orders = [PStr ''a'', PStr ''c'']\<rparr>)"
    by simp_all
  show ?thesis
    using cancel_open_orders_tracking [OF d1, of scenario_exchange]
      cancel_open_orders_tracking [OF d2, of scenario_exchange]
      cancel_open_orders_tracking [OF d3, of scenario_exchange]
    by (simp add: cancel_succeeded_def cancel_failed_otherwise_def scenario_exchange_def
        lower_def lower_char_def enumerate_eq_zip)
qed

lemma subscript_failure_not_found:
  "py_getitem reply ''status'' = Inl e \<Longrightarrow> \<not> not_found e"
proof (cases reply)
  case PNone
  moreover have "\<not> str_in ''not found'' (lower (quoted ''NoneType'' @ '' object is not subscriptable''))"
    by code_simp
  ultimately show "py_getitem reply ''status'' = Inl e \<Longrightarrow> \<not> not_found e"
    by (auto simp add: py_getitem_def not_found_def)
next
  case (PBool b)
  moreover have "\<not> str_in ''not found'' (lower (quoted ''bool'' @ '' object is not subscriptable''))"
    by code_simp
  ultimately show "py_getitem reply ''status'' = Inl e \<Longrightarrow> \<not> not_found e"
    by (auto simp add: py_getitem_def not_found_def)
next
  case (PNum x)
  moreover have "\<not> str_in ''not found'' (lower (quoted ''float'' @ '' object is not subscriptable''))"
    by code_simp
  ultimately show "py_getitem reply ''status'' = Inl e \<Longrightarrow> \<not> not_found e"
    by (auto simp add: py_getitem_def not_found_def)
next
  case (PStr s)
  moreover have "\<not> str_in ''not found'' (lower ''string indices must be integers'')"
    by code_simp
  ultimately show "py_getitem reply ''status'' = Inl e \<Longrightarrow> \<not> not_found e"
    by (auto simp add: py_getitem_def not_found_def)
next
  case (PList xs)
  moreover have "\<not> str_in ''not found'' (lower ''list indices must be integers or slices, not str'')"
    by code_simp
  ultimately show "py_getitem reply ''status'' = Inl e \<Longrightarrow> \<not> not_found e"
    by (auto simp add: py_getitem_def not_found_def)
next
  case (PDict kvs)
  moreover have "\<not> str_in ''not found'' (lower (quoted ''status''))"
    by code_simp
  ultimately show "py_getitem reply ''status'' = Inl e \<Longrightarrow> \<not> not_found e"
    by (auto simp add: py_getitem_def not_found_def split: option.splits)
qed

lemma completed_status_iff:
  "is_completed_status v \<longleftrightarrow> (\<exists>st. v = PStr st \<and> st \<in> {''filled'', ''closed'', ''canceled''})"
  by (cases v) (auto simp add: is_completed_status_def COMPLETED_ORDER_STATUSES_def)

lemma cleanup_step:
  "(let handler = (\<lambda>e. if not_found e then (c + 1, rm @ [a]) else (c, rm))
    in case fetch_order ex k a pair of
         Inl e \<Rightarrow> handler e
       | Inr order_status \<Rightarrow>
           (case py_getitem order_status ''status'' of
              Inl e \<Rightarrow> handler e
            | Inr status \<Rightarrow>
                (if is_completed_status status then (c + 1, rm @ [a]) else (c, rm))))
   = (if terminal_or_not_found ex pair (k, a) then (c + 1, rm @ [a]) else (c, rm))"
proof (cases "fetch_order ex k a pair")
  case (Inl e)
  then show ?thesis by (simp add: terminal_or_not_found_def not_found_def)
next
  case (Inr reply)
  show ?thesis
  proof (cases "py_getitem reply ''status''")
    case (Inl e)
    with Inr subscript_failure_not_found [OF Inl] show ?thesis
      by (simp add: terminal_or_not_found_def)
  next
    case r: (Inr v)
    with Inr show ?thesis
      by (cases v) (simp_all add: terminal_or_not_found_def completed_status_iff)
  qed
qed

lemma cleanup_loop_eq:
  "cleanup_loop ex pair k ids (c, rm) =
     (c + length (filter (terminal_or_not_found ex pair) (enumerate k ids)),
      rm @ map snd (filter (terminal_or_not_found ex pair) (enumerate k ids)))"
proof (induction ids arbitrary: k c rm)
  case Nil
  then show ?case by simp
next
  case (Cons a ids)
  show ?case
    by (simp only: cleanup_loop.simps cleanup_step) (simp add: Cons.IH)
qed

text \<open>
  Claim C8. When the tracked ids are pairwise distinct, \<^verbatim>\<open>cleanup_completed_orders\<close>
  removes exactly the ids whose status query reports filled, closed or canceled, or fails
  with a "not found" message, returns the number of these ids, and keeps every other id
  tracked in the old order: an id whose query fails for another reason (also a reply
  without a readable status) and an id with any other status.
\<close>

theorem cleanup_completed_orders_tracking:
  assumes "distinct (open_orders om)"
  shows "cleanup_completed_orders om ex =
           (length (filter (terminal_or_not_found ex (symbol om)) (enumerate 0 (open_orders om))),
            om\<lparr>open_orders :=
                 map snd (filter (\<lambda>q. \<not> terminal_or_not_found ex (symbol om) q)
                            (enumerate 0 (open_orders om)))\<rparr>)"
proof (cases "open_orders om = []")
  case True
  then show ?thesis by (simp add: cleanup_completed_orders_def)
next
  case False
  then show ?thesis
    using tracked_after_removal [OF assms, of "terminal_or_not_found ex (symbol om)" 0]
    by (simp add: cleanup_completed_orders_def cleanup_loop_eq)
qed

theorem cleanup_completed_orders_tracking_witness:
  "cleanup_completed_orders
     \<lparr>symbol = ''ETH/USDT'', open_orders = [PStr ''a'', PStr ''b'', PStr ''c'', PStr ''d'']\<rparr>
     scenario_exchange
     = (2, \<lparr>symbol = ''ETH/USDT'', open_orders = [PStr ''c'', PStr ''d'']\<rparr>)"
proof -
  have d: "distinct (open_orders
     \<lparr>symbol = ''ETH/USDT'', open_orders = [PStr ''a'', PStr ''b'', PStr ''c'', PStr ''d'']\<rparr>)"
    by simp
  have nf: "str_in ''not found'' (lower ''Order not found'')"
    and to: "\<not> str_in ''not found'' (lower ''Request timed out'')"
    by code_simp+
  show ?thesis
    using cleanup_completed_orders_tracking [OF d, of scenario_exchange] nf to
    by (simp add: terminal_or_not_found_def scenario_exchange_def py_getitem_def enumerate_eq_zip)
qed

section \<open>Dry-run placement\<close>





section \<open>The trade decision\<close>

lemmas body_splits = if_splits sum.splits prod.splits option.splits

lemmas run_defs =
  should_trade_def should_trade_body_def Let_def up_strategy_def init_strategy_def
  wide_book_def broken_ticker_def noon_def middle_draws_def should_place_order_def
  cancel_open_orders_def py_get_def py_num_def calculate_next_price_target_def
  price_target_body_def uniform_def clip_def determine_order_side_def calculate_order_size_def
  try_bind_def get_available_liquidity_def best_level_def py_getitem_def py_index_def
  max_liquidity_def calculate_spread_def BASE_PRICE_STEP_RATIO_def
  PRICE_RANDOMIZATION_FACTOR_def LIQUIDITY_USAGE_RATIO_def

text \<open>
  Claim C10. In every call of \<^verbatim>\<open>should_trade\<close> that reaches the acceptance step, that is,
  returns the analysis dictionary, the flag \<open>should_place\<close> equals \<open>spread_ok\<close>, which is
  \<open>spread \<le> max_spread_threshold\<close>. The bonus for being behind the volume target is added
  afterwards and changes the confidence only: the confidence is 0.7 or 0.3 by the spread,
  plus 0.2 when behind target, so one of 0.7, 0.9, 0.3, 0.5.
\<close>

theorem should_trade_acceptance:
  assumes "should_trade s ex clk d md bal = ((sp, conf, Analysis a), s')"
  shows "sp = a_spread_ok a
       \<and> a_spread_ok a = (a_spread a \<le> max_spread_threshold s)
       \<and> conf = (if a_spread_ok a then 7 / 10 else 3 / 10) + (if a_behind_target a then 2 / 10 else 0)
       \<and> conf \<in> {7 / 10, 9 / 10, 3 / 10, 5 / 10}"
  using assms
  by (auto simp add: should_trade_def should_trade_body_def Let_def split: body_splits)

theorem should_trade_acceptance_witness:
  "fst (should_trade up_strategy scenario_exchange noon middle_draws wide_book 1000) =
     (False, 1 / 2,
      Analysis
        \<lparr>a_current_price = 100, a_target_price = 2003 / 20, a_order_side = ''buy'',
         a_order_size = 5 / 2, a_order_value_usdt = 250, a_spread = 1 / 10,
         a_spread_ok = False, a_volume_rate_usdt = 0, a_behind_target = True,
         a_strategy_type = ''volume_generation''\<rparr>)
   \<and> (1 / 2 :: real) \<in> {7 / 10, 9 / 10, 3 / 10, 5 / 10}"
proof -
  have run: "should_trade up_strategy scenario_exchange noon middle_draws wide_book 1000 =
     ((False, 1 / 2,
       Analysis
        \<lparr>a_current_price = 100, a_target_price = 2003 / 20, a_order_side = ''buy'',
         a_order_size = 5 / 2, a_order_value_usdt = 250, a_spread = 1 / 10,
         a_spread_ok = False, a_volume_rate_usdt = 0, a_behind_target = True,
         a_strategy_type = ''volume_generation''\<rparr>),
      up_strategy\<lparr>price_strategy :=
         \<lparr>price_walk_direction = ''up'', max_price_deviation = 1 / 100,
          price_walk_step = 0, last_order_side = Some ''buy''\<rparr>\<rparr>)"
    by (simp add: run_defs)
  show ?thesis
    using should_trade_acceptance [OF run] run by simp
qed

text \<open>
  Claim C5. \<^verbatim>\<open>should_trade\<close> returns a decision for every input. When a step of its body
  raises an exception \<open>e\<close> (a malformed snapshot, for instance), the decision is
  \<open>should_place = False\<close>, confidence 0 and the diagnostics \<^verbatim>\<open>{'error': str(e)}\<close>; when the
  body returns, its decision is returned as it is. Every decision with an error
  diagnostic has \<open>should_place = False\<close> and confidence 0, and absent market data gives
  the error "No market data" and leaves the strategy untouched.
\<close>

theorem should_trade_never_raises:
  "(\<forall>e s'. should_trade_body s ex clk d md bal = (Inl e, s')
        \<longrightarrow> should_trade s ex clk d md bal = ((False, 0, Error (str_exn e)), s'))
   \<and> (\<forall>dec s'. should_trade_body s ex clk d md bal = (Inr dec, s')
        \<longrightarrow> should_trade s ex clk d md bal = (dec, s'))
   \<and> (\<forall>sp conf m s'. should_trade s ex clk d md bal = ((sp, conf, Error m), s')
        \<longrightarrow> \<not> sp \<and> conf = 0)
   \<and> (\<not> truthy md
        \<longrightarrow> should_trade s ex clk d md bal = ((False, 0, Error ''No market data''), s))"
proof (intro conjI allI impI)
  fix e s'
  assume "should_trade_body s ex clk d md bal = (Inl e, s')"
  then show "should_trade s ex clk d md bal = ((False, 0, Error (str_exn e)), s')"
    by (simp add: should_trade_def)
next
  fix dec s'
  assume "should_trade_body s ex clk d md bal = (Inr dec, s')"
  then show "should_trade s ex clk d md bal = (dec, s')"
    by (simp add: should_trade_def)
next
  fix sp conf m s'
  assume "should_trade s ex clk d md bal = ((sp, conf, Error m), s')"
  then show "\<not> sp" and "conf = 0"
    by (auto simp add: should_trade_def should_trade_body_def Let_def split: body_splits)
next
  assume "\<not> truthy md"
  then show "should_trade s ex clk d md bal = ((False, 0, Error ''No market data''), s)"
    by (simp add: should_trade_def should_trade_body_def)
qed

theorem should_trade_never_raises_witness:
  "should_trade up_strategy scenario_exchange noon middle_draws broken_ticker 1000 =
     ((False, 0, Error (quoted ''str'' @ '' object has no attribute '' @ quoted ''get'')),
      up_strategy)
   \<and> should_trade up_strategy scenario_exchange noon middle_draws PNone 1000 =
     ((False, 0, Error ''No market data''), up_strategy)"
proof -
  have raised: "should_trade_body up_strategy scenario_exchange noon middle_draws broken_ticker 1000 =
      (Inl (AttributeError (quoted ''str'' @ '' object has no attribute '' @ quoted ''get'')),
       up_strategy)"
    by (simp add: run_defs)
  have absent: "\<not> truthy PNone"
    by simp
  have "should_trade up_strategy scenario_exchange noon middle_draws broken_ticker 1000 =
     ((False, 0,
       Error (str_exn (AttributeError
         (quoted ''str'' @ '' object has no attribute '' @ quoted ''get'')))),
      up_strategy)"
    using should_trade_never_raises
      [of up_strategy scenario_exchange noon middle_draws broken_ticker 1000] raised
    by blast
  moreover have "should_trade up_strategy scenario_exchange noon middle_draws PNone 1000 =
     ((False, 0, Error ''No market data''), up_strategy)"
    using should_trade_never_raises
      [of up_strategy scenario_exchange noon middle_draws PNone 1000] absent
    by blast
  ultimately show ?thesis
    by simp
qed




end
